theory Spec2Isabelle
  imports Complex_Main
begin

text \<open>
  The event pipeline of WilliamBoard (a Go service): the scoring, moderation and geocoding
  of the event candidates extracted from a photograph, the publish decision, and the
  promotion of a candidate to a public event. The functions of the program are embedded
  as HOL functions over an explicit store; what the external services answer, the clock
  and the local time zone are parameters.
\<close>

section \<open>Strings (Go package strings, on ASCII text)\<close>

text \<open>
  A Go string is modelled as a list of bytes. \<open>strings.TrimSpace\<close>, \<open>strings.Fields\<close>
  and \<open>strings.ToLower\<close> are modelled on ASCII text: the white space is the six ASCII
  white-space bytes, and lower-casing maps \<open>A\<close>..\<open>Z\<close> to \<open>a\<close>..\<open>z\<close> and keeps every
  other byte.
\<close>

definition isSpace :: "char \<Rightarrow> bool" where
  "isSpace c \<longleftrightarrow> c \<in> set [CHR 0x09, CHR 0x0A, CHR 0x0B, CHR 0x0C, CHR 0x0D, CHR '' '']"

definition TrimSpace :: "string \<Rightarrow> string" where
  "TrimSpace s = rev (dropWhile isSpace (rev (dropWhile isSpace s)))"

definition toLower_char :: "char \<Rightarrow> char" where
  "toLower_char c =
     (case map_of (zip ''ABCDEFGHIJKLMNOPQRSTUVWXYZ'' ''abcdefghijklmnopqrstuvwxyz'') c of
        Some l \<Rightarrow> l
      | None \<Rightarrow> c)"

definition ToLower :: "string \<Rightarrow> string" where
  "ToLower s = map toLower_char s"

definition HasPrefix :: "string \<Rightarrow> string \<Rightarrow> bool" where
  "HasPrefix s p \<longleftrightarrow> take (length p) s = p"

fun Contains :: "string \<Rightarrow> string \<Rightarrow> bool" where
  "Contains [] sub = (sub = [])"
| "Contains (c # cs) sub = (HasPrefix (c # cs) sub \<or> Contains cs sub)"

text \<open>\<open>strings.Fields\<close>: the maximal runs of non-space bytes, in order; \<open>cur\<close> is the
  field being read.\<close>

fun fields_from :: "string \<Rightarrow> string \<Rightarrow> string list" where
  "fields_from cur [] = (if cur = [] then [] else [cur])"
| "fields_from cur (c # cs) =
     (if isSpace c then (if cur = [] then fields_from [] cs else cur # fields_from [] cs)
      else fields_from (cur @ [c]) cs)"

definition strings_Fields :: "string \<Rightarrow> string list" where
  "strings_Fields s = fields_from [] s"

section \<open>JSON documents (encoding/json)\<close>

datatype jsonv =
    JNull
  | JBool bool
  | JNum real
  | JStr string
  | JArr "jsonv list"
  | JObj "(string \<times> jsonv) list"

text \<open>
  A JSON text column (\<open>EventCandidate.Fields\<close>) is modelled by what \<open>encoding/json\<close>
  reads from it: \<open>None\<close> for a text that is not JSON, \<open>Some v\<close> for the document \<open>v\<close>.
\<close>

type_synonym json_text = "jsonv option"

type_synonym json_map = "string \<rightharpoonup> jsonv"

text \<open>
  \<open>json.Unmarshal(text, &m)\<close> for \<open>m : map[string]interface{}\<close>: an object fills the map
  (a repeated key keeps its last value), \<open>null\<close> leaves the map nil (reads of a nil map
  find nothing), anything else is an error (\<open>None\<close>).
\<close>

definition unmarshal_map :: "json_text \<Rightarrow> json_map option" where
  "unmarshal_map t =
     (case t of
        None \<Rightarrow> None
      | Some (JObj kvs) \<Rightarrow> Some (map_of (rev kvs))
      | Some JNull \<Rightarrow> Some Map.empty
      | Some _ \<Rightarrow> None)"

text \<open>The type assertion \<open>v, ok := m[k].(string)\<close>: \<open>Some v\<close> when \<open>ok\<close>.\<close>

definition get_string :: "json_map \<Rightarrow> string \<Rightarrow> string option" where
  "get_string m k = (case m k of Some (JStr s) \<Rightarrow> Some s | _ \<Rightarrow> None)"

section \<open>Time (Go package time)\<close>

text \<open>
  A \<open>time.Time\<close> is an instant (Unix seconds and nanoseconds) with a location.
  \<open>time.Parse\<close> with a layout that names no zone returns a UTC time; \<open>time.Now()\<close>
  returns a time in the process's local zone. The local zone is a parameter \<open>tz\<close> of the
  model: the offset east of UTC, in seconds, in force at a given Unix second.
\<close>

datatype location = UTC | Local

record gotime =
  unix_sec :: int
  nsec :: int
  loc :: location

type_synonym zone = "int \<Rightarrow> int"

definition Before :: "gotime \<Rightarrow> gotime \<Rightarrow> bool" where
  "Before t u \<longleftrightarrow> unix_sec t < unix_sec u \<or> (unix_sec t = unix_sec u \<and> nsec t < nsec u)"

text \<open>\<open>t.Add(24 * time.Hour)\<close>.\<close>

definition Add24h :: "gotime \<Rightarrow> gotime" where
  "Add24h t = t\<lparr>unix_sec := unix_sec t + 86400\<rparr>"

definition isLeap :: "int \<Rightarrow> bool" where
  "isLeap y \<longleftrightarrow> y mod 4 = 0 \<and> (y mod 100 \<noteq> 0 \<or> y mod 400 = 0)"

definition daysIn :: "nat \<Rightarrow> int \<Rightarrow> nat" where
  "daysIn m y =
     (if m = 2 then (if isLeap y then 29 else 28)
      else if m = 4 \<or> m = 6 \<or> m = 9 \<or> m = 11 then 30 else 31)"

text \<open>
  The proleptic Gregorian calendar: the number of days from 1970-01-01 to the civil date
  (year, month, day), and back. A day beyond the end of its month runs into the next
  month, as \<open>time.Date\<close> normalises it.
\<close>

definition days_from_civil :: "int \<Rightarrow> int \<Rightarrow> int \<Rightarrow> int" where
  "days_from_civil y m d =
     (let y' = (if m \<le> 2 then y - 1 else y);
          era = y' div 400;
          yoe = y' - era * 400;
          doy = (153 * (if m > 2 then m - 3 else m + 9) + 2) div 5 + d - 1;
          doe = yoe * 365 + yoe div 4 - yoe div 100 + doy
      in era * 146097 + doe - 719468)"

definition civil_from_days :: "int \<Rightarrow> int \<times> int \<times> int" where
  "civil_from_days z =
     (let z' = z + 719468;
          era = z' div 146097;
          doe = z' - era * 146097;
          yoe = (doe - doe div 1460 + doe div 36524 - doe div 146096) div 365;
          doy = doe - (365 * yoe + yoe div 4 - yoe div 100);
          mp = (5 * doy + 2) div 153;
          d = doy - (153 * mp + 2) div 5 + 1;
          m = (if mp < 10 then mp + 3 else mp - 9);
          y = yoe + era * 400
      in (if m \<le> 2 then y + 1 else y, m, d))"

text \<open>The seconds on the wall clock of the time's own location.\<close>

definition wall_sec :: "zone \<Rightarrow> gotime \<Rightarrow> int" where
  "wall_sec tz t = unix_sec t + (case loc t of UTC \<Rightarrow> 0 | Local \<Rightarrow> tz (unix_sec t))"

text \<open>\<open>t.Date()\<close>: year, month and day in the time's location.\<close>

definition Date_of :: "zone \<Rightarrow> gotime \<Rightarrow> int \<times> int \<times> int" where
  "Date_of tz t = civil_from_days (wall_sec tz t div 86400)"

text \<open>\<open>time.Date(y, m, d, 0, 0, secs, ns, time.UTC)\<close> with \<open>secs\<close> the seconds into the
  day.\<close>

definition Date_UTC :: "int \<Rightarrow> int \<Rightarrow> int \<Rightarrow> int \<Rightarrow> int \<Rightarrow> gotime" where
  "Date_UTC y m d secs ns =
     \<lparr>unix_sec = days_from_civil y m d * 86400 + secs, nsec = ns, loc = UTC\<rparr>"

text \<open>
  \<open>t.AddDate(1, 0, 0)\<close> for a UTC time \<open>t\<close> (the program adds a year to parsed times
  only): the same month, day and clock reading one year later, normalised, so that
  29 February becomes 1 March.
\<close>

definition AddDate_1year :: "gotime \<Rightarrow> gotime" where
  "AddDate_1year t =
     (case civil_from_days (unix_sec t div 86400) of
        (y, m, d) \<Rightarrow> Date_UTC (y + 1) m d (unix_sec t mod 86400) (nsec t))"

definition digit_char :: "nat \<Rightarrow> char" where
  "digit_char n = ''0123456789'' ! (n mod 10)"

fun digits_of :: "nat \<Rightarrow> string" where
  "digits_of n =
     (if n < 10 then [digit_char n] else digits_of (n div 10) @ [digit_char n])"

declare digits_of.simps [simp del]

text \<open>The decimal digits of \<open>x\<close>, padded with zeros to \<open>width\<close>, with a sign when negative.\<close>

definition appendInt :: "int \<Rightarrow> nat \<Rightarrow> string" where
  "appendInt x width =
     (let ds = digits_of (nat \<bar>x\<bar>);
          padded = replicate (width - length ds) (CHR ''0'') @ ds
      in if x < 0 then CHR ''-'' # padded else padded)"

text \<open>\<open>t.Format("2006-01-02")\<close>.\<close>

definition Format_date :: "zone \<Rightarrow> gotime \<Rightarrow> string" where
  "Format_date tz t =
     (case Date_of tz t of
        (y, m, d) \<Rightarrow> appendInt y 4 @ ''-'' @ appendInt m 2 @ ''-'' @ appendInt d 2)"

subsection \<open>time.Parse on the layouts the program uses\<close>

text \<open>
  A layout is the list of its chunks, as \<open>time.Parse\<close> reads it: literal text and the
  reference-time elements \<open>2006\<close>, \<open>01\<close>, \<open>02\<close>, \<open>2\<close>, \<open>15\<close>, \<open>04\<close>, \<open>05\<close>,
  \<open>January\<close> and \<open>Jan\<close>.
\<close>

datatype chunk =
    Lit string
  | stdLongYear
  | stdZeroMonth
  | stdZeroDay
  | stdDay
  | stdHour
  | stdZeroMinute
  | stdZeroSecond
  | stdLongMonth
  | stdMonth

record parsed =
  p_year :: int
  p_month :: nat
  p_day :: nat
  p_hour :: nat
  p_min :: nat
  p_sec :: nat
  p_nsec :: int

definition isDigit :: "char \<Rightarrow> bool" where
  "isDigit c \<longleftrightarrow> 48 \<le> (of_char c :: nat) \<and> (of_char c :: nat) \<le> 57"

definition digit_val :: "char \<Rightarrow> nat" where
  "digit_val c = of_char c - 48"

definition atoi_digits :: "string \<Rightarrow> int" where
  "atoi_digits ds = foldl (\<lambda>a c. a * 10 + int (digit_val c)) 0 ds"

text \<open>\<open>getnum(s, fixed)\<close>: one or two leading digits (exactly two when \<open>fixed\<close>).\<close>

definition getnum :: "string \<Rightarrow> bool \<Rightarrow> (nat \<times> string) option" where
  "getnum s fixed =
     (case s of
        [] \<Rightarrow> None
      | c # r \<Rightarrow>
          if \<not> isDigit c then None
          else (case r of
                  [] \<Rightarrow> if fixed then None else Some (digit_val c, r)
                | c2 # r2 \<Rightarrow>
                    if \<not> isDigit c2 then (if fixed then None else Some (digit_val c, r))
                    else Some (digit_val c * 10 + digit_val c2, r2)))"

definition cutspace :: "string \<Rightarrow> string" where
  "cutspace s = dropWhile (\<lambda>c. c = CHR '' '') s"

text \<open>\<open>skip(value, prefix)\<close>: the value after the literal text \<open>prefix\<close>; a space of the
  layout stands for any run of spaces of the value, also an empty one at its end.\<close>

function skip :: "string \<Rightarrow> string \<Rightarrow> string option" where
  "skip v [] = Some v"
| "skip v (p # ps) =
     (if p = CHR '' '' then
        (if v \<noteq> [] \<and> hd v \<noteq> CHR '' '' then None else skip (cutspace v) (cutspace ps))
      else (case v of
              [] \<Rightarrow> None
            | c # cs \<Rightarrow> if c \<noteq> p then None else skip cs ps))"
  by pat_completeness auto
termination
  by (relation "measure (\<lambda>(v, p). length p)")
     (auto simp: cutspace_def le_imp_less_Suc length_dropWhile_le)

definition longMonthNames :: "string list" where
  "longMonthNames = [''January'', ''February'', ''March'', ''April'', ''May'', ''June'', ''July'',
     ''August'', ''September'', ''October'', ''November'', ''December'']"

definition shortMonthNames :: "string list" where
  "shortMonthNames = [''Jan'', ''Feb'', ''Mar'', ''Apr'', ''May'', ''Jun'', ''Jul'',
     ''Aug'', ''Sep'', ''Oct'', ''Nov'', ''Dec'']"

text \<open>\<open>lookup(tab, val)\<close>: the index of the first name of \<open>tab\<close> that \<open>val\<close> starts with,
  letters compared without case, and the rest of \<open>val\<close>.\<close>

fun lookup_from :: "nat \<Rightarrow> string list \<Rightarrow> string \<Rightarrow> (nat \<times> string) option" where
  "lookup_from i [] val = None"
| "lookup_from i (v # tab) val =
     (if length v \<le> length val \<and> ToLower (take (length v) val) = ToLower v
      then Some (i, drop (length v) val)
      else lookup_from (Suc i) tab val)"

definition commaOrPeriod :: "char \<Rightarrow> bool" where
  "commaOrPeriod c \<longleftrightarrow> c = CHR ''.'' \<or> c = CHR '',''"

text \<open>A fractional second in the value where the layout has none: a separator and at
  least one digit; the first nine digits count, as nanoseconds.\<close>

definition has_fraction :: "string \<Rightarrow> bool" where
  "has_fraction v \<longleftrightarrow>
     (case v of c # d # _ \<Rightarrow> commaOrPeriod c \<and> isDigit d | _ \<Rightarrow> False)"

definition parseNanoseconds :: "string \<Rightarrow> int \<times> string" where
  "parseNanoseconds v =
     (let ds = takeWhile isDigit (tl v);
          ds9 = take 9 ds
      in (atoi_digits ds9 * 10 ^ (9 - length ds9), dropWhile isDigit (tl v)))"

fun parse_chunks :: "chunk list \<Rightarrow> string \<Rightarrow> parsed \<Rightarrow> parsed option" where
  "parse_chunks [] v p = (if v = [] then Some p else None)"
| "parse_chunks (Lit pre # cs) v p =
     (case skip v pre of None \<Rightarrow> None | Some v' \<Rightarrow> parse_chunks cs v' p)"
| "parse_chunks (stdLongYear # cs) v p =
     (if length v < 4 \<or> \<not> list_all isDigit (take 4 v) then None
      else parse_chunks cs (drop 4 v) (p\<lparr>p_year := atoi_digits (take 4 v)\<rparr>))"
| "parse_chunks (stdZeroMonth # cs) v p =
     (case getnum v True of
        None \<Rightarrow> None
      | Some (m, v') \<Rightarrow>
          if m = 0 \<or> 12 < m then None else parse_chunks cs v' (p\<lparr>p_month := m\<rparr>))"
| "parse_chunks (stdLongMonth # cs) v p =
     (case lookup_from 0 longMonthNames v of
        None \<Rightarrow> None
      | Some (i, v') \<Rightarrow> parse_chunks cs v' (p\<lparr>p_month := Suc i\<rparr>))"
| "parse_chunks (stdMonth # cs) v p =
     (case lookup_from 0 shortMonthNames v of
        None \<Rightarrow> None
      | Some (i, v') \<Rightarrow> parse_chunks cs v' (p\<lparr>p_month := Suc i\<rparr>))"
| "parse_chunks (stdZeroDay # cs) v p =
     (case getnum v True of
        None \<Rightarrow> None
      | Some (d, v') \<Rightarrow> parse_chunks cs v' (p\<lparr>p_day := d\<rparr>))"
| "parse_chunks (stdDay # cs) v p =
     (case getnum v False of
        None \<Rightarrow> None
      | Some (d, v') \<Rightarrow> parse_chunks cs v' (p\<lparr>p_day := d\<rparr>))"
| "parse_chunks (stdHour # cs) v p =
     (case getnum v False of
        None \<Rightarrow> None
      | Some (h, v') \<Rightarrow>
          if 24 \<le> h then None else parse_chunks cs v' (p\<lparr>p_hour := h\<rparr>))"
| "parse_chunks (stdZeroMinute # cs) v p =
     (case getnum v True of
        None \<Rightarrow> None
      | Some (m, v') \<Rightarrow>
          if 60 \<le> m then None else parse_chunks cs v' (p\<lparr>p_min := m\<rparr>))"
| "parse_chunks (stdZeroSecond # cs) v p =
     (case getnum v True of
        None \<Rightarrow> None
      | Some (s, v') \<Rightarrow>
          if 60 \<le> s then None
          else if has_fraction v' then
            (case parseNanoseconds v' of
               (ns, v'') \<Rightarrow> parse_chunks cs v'' (p\<lparr>p_sec := s, p_nsec := ns\<rparr>))
          else parse_chunks cs v' (p\<lparr>p_sec := s\<rparr>))"

text \<open>\<open>time.Parse(layout, value)\<close>: \<open>None\<close> for an error; a month or day the layout does
  not set is 1; the day is checked against its month last.\<close>

definition time_Parse :: "chunk list \<Rightarrow> string \<Rightarrow> gotime option" where
  "time_Parse layout v =
     (case parse_chunks layout v
             \<lparr>p_year = 0, p_month = 1, p_day = 1, p_hour = 0, p_min = 0, p_sec = 0, p_nsec = 0\<rparr> of
        None \<Rightarrow> None
      | Some p \<Rightarrow>
          if p_day p < 1 \<or> daysIn (p_month p) (p_year p) < p_day p then None
          else Some (Date_UTC (p_year p) (int (p_month p)) (int (p_day p))
                       (int (p_hour p) * 3600 + int (p_min p) * 60 + int (p_sec p))
                       (p_nsec p)))"

section \<open>Confidence Scorer (services/moderation: calculateQualityScore)\<close>

text \<open>
  Go's \<open>float64\<close> scores are modelled as exact reals: every score, weight and
  threshold of the program is a decimal literal or a sum of products of such, and the
  properties below are stated for that exact arithmetic.
\<close>

record QualityFactors =
  EventDetailsComplete :: real
  DateTimeConfidence :: real
  VenueConfidence :: real
  ContactInfoPresent :: real
  ProfessionalLookng :: real
  TextReadability :: real

text \<open>The local map \<open>weights\<close> of \<open>calculateQualityScore\<close>; reading a Go map at a
  missing key gives the zero value.\<close>

definition weights :: "string \<rightharpoonup> real" where
  "weights = [''event_details'' \<mapsto> 0.25, ''datetime'' \<mapsto> 0.20, ''venue'' \<mapsto> 0.20,
              ''contact'' \<mapsto> 0.15, ''professional'' \<mapsto> 0.15, ''readability'' \<mapsto> 0.05]"

definition weight_at :: "string \<Rightarrow> real" where
  "weight_at k = (case weights k of Some w \<Rightarrow> w | None \<Rightarrow> 0)"

definition calculateQualityScore :: "QualityFactors \<Rightarrow> real" where
  "calculateQualityScore factors =
     EventDetailsComplete factors * weight_at ''event_details'' +
     DateTimeConfidence factors * weight_at ''datetime'' +
     VenueConfidence factors * weight_at ''venue'' +
     ContactInfoPresent factors * weight_at ''contact'' +
     ProfessionalLookng factors * weight_at ''professional'' +
     TextReadability factors * weight_at ''readability''"



section \<open>Data model (package models) and the store\<close>

text \<open>
  The rows of the tables, with the fields the program sets. Identifiers (UUIDs in the
  program) are natural numbers; \<open>uuid.New()\<close> in the \<open>BeforeCreate\<close> hooks is the
  store's counter \<open>next_id\<close>. The time stamps \<open>CreatedAt\<close> and \<open>UpdatedAt\<close> are left out.
\<close>

record GeocodeResult =
  Latitude :: real
  Longitude :: real
  FormattedAddress :: string
  Confidence :: real
  Components :: "(string \<times> string) list"
  RawResponse :: jsonv

record Venue =
  venue_ID :: nat
  Name :: string
  AddressLine :: "string option"
  City :: "string option"
  State :: "string option"
  PostalCode :: "string option"
  Country :: string
  Location :: "(real \<times> real) option"
  GeocodeConfidence :: "real option"
  GeocodeData :: "jsonv option"

record Flyer =
  flyer_ID :: nat
  SubmissionID :: nat
  RegionID :: string
  Polygon :: jsonv
  RotationDeg :: "real option"
  DetectionConfidence :: real
  Notes :: "string option"

record EventCandidate =
  cand_ID :: nat
  FlyerID :: nat
  EventID :: string
  Fields :: json_text
  Confidences :: json_text
  SourceExcerpt :: "string option"
  Geocode :: "GeocodeResult option"
  CompositeScore :: "real option"
  PublishResult :: "string option"
  PublicationReason :: "string option"

record Event =
  event_ID :: nat
  CanonicalKey :: string
  Title :: string
  StartTs :: gotime
  EndTs :: "gotime option"
  VenueID :: "nat option"
  URL :: "string option"
  Price :: "string option"
  Description :: "string option"
  Organizer :: "string option"
  Source :: string
  PublishedVia :: string
  event_QualityScore :: "real option"
  ModerationState :: string

record db =
  submissions :: "nat list"
  flyers :: "Flyer list"
  venues :: "Venue list"
  event_candidates :: "EventCandidate list"
  events :: "Event list"
  next_id :: nat

datatype db_error = UniqueViolation | ForeignKeyViolation

datatype error =
    ParseFieldsFailed
  | TitleRequired
  | CreateEventFailed db_error
  | CreateFlyerFailed db_error
  | CreateCandidateFailed db_error
  | ModerationCallFailed
  | NoModerationResponse
  | UnsupportedGeocoder
  | EmptyAddress
  | GeocodingRequestFailed
  | GeocodingBadStatus
  | GeocodingDecodeFailed
  | NoGeocodingResults
  | InvalidCoordinates
  | NoVenueName

text \<open>
  The store executes every statement it is given; what it refuses is a second event with
  a canonical key already stored (the unique index on \<open>events.canonical_key\<close>) and a row
  that refers to a missing parent row.
\<close>

text \<open>\<open>db.Where("canonical_key = ?", key).First(&existingEvent)\<close>.\<close>

definition find_event :: "string \<Rightarrow> db \<Rightarrow> Event option" where
  "find_event key d = List.find (\<lambda>e. CanonicalKey e = key) (events d)"

text \<open>\<open>db.Model(&existingEvent).Update("moderation_state", "approved")\<close>.\<close>

definition approve_event :: "Event \<Rightarrow> db \<Rightarrow> db" where
  "approve_event existing d =
     d\<lparr>events := map (\<lambda>e. if event_ID e = event_ID existing
                             then e\<lparr>ModerationState := ''approved''\<rparr> else e) (events d)\<rparr>"

definition create_event :: "db \<Rightarrow> Event \<Rightarrow> db_error + db" where
  "create_event d ev =
     (if list_ex (\<lambda>e. CanonicalKey e = CanonicalKey ev) (events d) then Inl UniqueViolation
      else if (case VenueID ev of None \<Rightarrow> False
               | Some v \<Rightarrow> \<not> list_ex (\<lambda>x. venue_ID x = v) (venues d))
      then Inl ForeignKeyViolation
      else Inr (d\<lparr>events := events d @ [ev\<lparr>event_ID := next_id d\<rparr>],
                  next_id := Suc (next_id d)\<rparr>))"

text \<open>Creating a venue returns the store and the row as stored, with its new identifier.\<close>

definition create_venue :: "db \<Rightarrow> Venue \<Rightarrow> db \<times> Venue" where
  "create_venue d v =
     (d\<lparr>venues := venues d @ [v\<lparr>venue_ID := next_id d\<rparr>], next_id := Suc (next_id d)\<rparr>,
      v\<lparr>venue_ID := next_id d\<rparr>)"

text \<open>\<open>db.Save(&venue)\<close> and \<open>db.Save(candidate)\<close>: the row with that identifier is
  replaced; a row not yet stored is inserted.\<close>

definition save_venue :: "Venue \<Rightarrow> db \<Rightarrow> db" where
  "save_venue v d =
     (if list_ex (\<lambda>x. venue_ID x = venue_ID v) (venues d)
      then d\<lparr>venues := map (\<lambda>x. if venue_ID x = venue_ID v then v else x) (venues d)\<rparr>
      else d\<lparr>venues := venues d @ [v]\<rparr>)"

definition save_candidate :: "EventCandidate \<Rightarrow> db \<Rightarrow> db" where
  "save_candidate c d =
     (if list_ex (\<lambda>x. cand_ID x = cand_ID c) (event_candidates d)
      then d\<lparr>event_candidates :=
                map (\<lambda>x. if cand_ID x = cand_ID c then c else x) (event_candidates d)\<rparr>
      else d\<lparr>event_candidates := event_candidates d @ [c]\<rparr>)"



text \<open>
  PostgreSQL's \<open>value ILIKE pattern\<close>: \<open>%\<close> stands for any text, \<open>_\<close> for any one
  character, a backslash takes the next character literally, and letters match without
  case.
\<close>

fun like_match :: "string \<Rightarrow> string \<Rightarrow> bool" where
  "like_match [] s = (s = [])"
| "like_match (p # ps) [] = (p = CHR ''%'' \<and> like_match ps [])"
| "like_match (p # ps) (c # cs) =
     (if p = CHR ''%'' then like_match ps (c # cs) \<or> like_match (p # ps) cs
      else if p = CHR ''_'' then like_match ps cs
      else if p = CHR 0x5C then
        (case ps of [] \<Rightarrow> False | q # qs \<Rightarrow> q = c \<and> like_match qs cs)
      else p = c \<and> like_match ps cs)"

definition ilike :: "string \<Rightarrow> string \<Rightarrow> bool" where
  "ilike v pattern \<longleftrightarrow> like_match (ToLower pattern) (ToLower v)"

text \<open>\<open>tx.Where("name ILIKE ?", venueName).First(&venue)\<close>.\<close>

definition find_venue_ilike :: "string \<Rightarrow> db \<Rightarrow> Venue option" where
  "find_venue_ilike venueName d = List.find (\<lambda>v. ilike (Name v) venueName) (venues d)"

text \<open>\<open>h.db.Where("name = ? AND city = ?", venueName, city).First(&venue)\<close>.\<close>

definition find_venue_name_city :: "string \<Rightarrow> string \<Rightarrow> db \<Rightarrow> Venue option" where
  "find_venue_name_city venueName city d =
     List.find (\<lambda>v. Name v = venueName \<and> City v = Some city) (venues d)"

section \<open>Configuration (package config)\<close>

record Config =
  OpenAIAPIKey :: string
  Geocoder :: string
  GeocoderAPIKey :: string
  AutoPublishThreshold :: real
  GeoConfThreshold :: real

text \<open>The values \<open>Load\<close> gives these fields of the configuration when the environment sets
  none of them but the (required) classifier key \<open>key\<close>.\<close>

definition default_Config :: "string \<Rightarrow> Config" where
  "default_Config key =
     \<lparr>OpenAIAPIKey = key, Geocoder = ''mapbox'', GeocoderAPIKey = [],
      AutoPublishThreshold = 0.80, GeoConfThreshold = 0.75\<rparr>"

section \<open>Moderation Stage (services: ModerationService)\<close>

record ModerationResult =
  QualityScore :: real
  IsAppropriate :: bool
  ModerationReason :: "string option"
  ConfidenceFactors :: "(string \<times> real) list"

text \<open>The local struct \<open>moderationData\<close> that the classifier's answer is decoded into.\<close>

record moderationData =
  md_QualityFactors :: QualityFactors
  md_IsAppropriate :: bool
  md_ModerationReason :: "string option"

text \<open>
  What the external classifier call comes to: \<open>CreateChatCompletion\<close> returns an error
  (a transport failure, or the context's timeout), it returns no choice, or it returns a
  content that \<open>json.Unmarshal\<close> rejects or decodes.
\<close>

datatype classifier_outcome =
    CallFailed
  | NoChoices
  | Unparsable
  | Parsed moderationData

text \<open>\<open>v, ok := eventData[k].(string); ok && strings.TrimSpace(v) != ""\<close>.\<close>

definition field_present :: "json_map \<Rightarrow> string \<Rightarrow> bool" where
  "field_present eventData k =
     (case get_string eventData k of Some v \<Rightarrow> TrimSpace v \<noteq> [] | None \<Rightarrow> False)"

definition mockModerationResult :: "json_map \<Rightarrow> ModerationResult" where
  "mockModerationResult eventData =
     (let q0 = 0.75;
          q1 = (if field_present eventData ''title'' then q0 + 0.1 else q0);
          q2 = (if field_present eventData ''venue'' then q1 + 0.05 else q1);
          q3 = (if field_present eventData ''date'' then q2 + 0.05 else q2);
          qualityScore = (if q3 > 1.0 then 1.0 else q3)
      in \<lparr>QualityScore = qualityScore, IsAppropriate = True, ModerationReason = None,
          ConfidenceFactors =
            [(''event_details_complete'', 0.8), (''datetime_confidence'', 0.7),
             (''venue_confidence'', 0.7), (''contact_info_present'', 0.5),
             (''professional_looking'', 0.8), (''text_readability'', 0.8)]\<rparr>)"

definition ModerateEventCandidate ::
    "Config \<Rightarrow> classifier_outcome \<Rightarrow> json_map \<Rightarrow> error + ModerationResult" where
  "ModerateEventCandidate cfg outcome eventData =
     (if OpenAIAPIKey cfg = [] then Inr (mockModerationResult eventData)
      else (case outcome of
              CallFailed \<Rightarrow> Inl ModerationCallFailed
            | NoChoices \<Rightarrow> Inl NoModerationResponse
            | Unparsable \<Rightarrow> Inr (mockModerationResult eventData)
            | Parsed md \<Rightarrow>
                Inr \<lparr>QualityScore = calculateQualityScore (md_QualityFactors md),
                     IsAppropriate = md_IsAppropriate md,
                     ModerationReason = md_ModerationReason md,
                     ConfidenceFactors =
                       [(''event_details_complete'', EventDetailsComplete (md_QualityFactors md)),
                        (''datetime_confidence'', DateTimeConfidence (md_QualityFactors md)),
                        (''venue_confidence'', VenueConfidence (md_QualityFactors md)),
                        (''contact_info_present'', ContactInfoPresent (md_QualityFactors md)),
                        (''professional_looking'', ProfessionalLookng (md_QualityFactors md)),
                        (''text_readability'', TextReadability (md_QualityFactors md))]\<rparr>))"

section \<open>Geocoding Stage (services: GeocodingService)\<close>

record MapboxFeature =
  Coordinates :: "real list"
  FullAddress :: string
  Context :: "(string \<times> string) list"
  Relevance :: real
  feature_json :: jsonv

text \<open>What the request to the provider comes to: no response, a status other than 200, a
  body that does not decode, or the decoded features.\<close>

datatype mapbox_reply =
    RequestFailed
  | BadStatus
  | DecodeFailed
  | Features "MapboxFeature list"

text \<open>A Go \<open>map[string]string\<close> as an association list, the latest entry first; a read at
  a missing key gives the empty string.\<close>

definition component :: "(string \<times> string) list \<Rightarrow> string \<Rightarrow> string" where
  "component comps k = (case map_of comps k of Some v \<Rightarrow> v | None \<Rightarrow> [])"

definition add_component ::
    "(string \<times> string) list \<Rightarrow> string \<times> string \<Rightarrow> (string \<times> string) list" where
  "add_component comps c =
     (if HasPrefix (fst c) ''place'' then (''city'', snd c) # comps
      else if HasPrefix (fst c) ''region'' then (''state'', snd c) # comps
      else if HasPrefix (fst c) ''country'' then (''country'', snd c) # comps
      else if HasPrefix (fst c) ''postcode'' then (''postal_code'', snd c) # comps
      else comps)"

definition geocodeWithMapbox :: "mapbox_reply \<Rightarrow> string \<Rightarrow> error + GeocodeResult" where
  "geocodeWithMapbox reply address =
     (if TrimSpace address = [] then Inl EmptyAddress
      else (case reply of
              RequestFailed \<Rightarrow> Inl GeocodingRequestFailed
            | BadStatus \<Rightarrow> Inl GeocodingBadStatus
            | DecodeFailed \<Rightarrow> Inl GeocodingDecodeFailed
            | Features [] \<Rightarrow> Inl NoGeocodingResults
            | Features (feature # _) \<Rightarrow>
                if length (Coordinates feature) < 2 then Inl InvalidCoordinates
                else Inr \<lparr>Latitude = Coordinates feature ! 1,
                          Longitude = Coordinates feature ! 0,
                          FormattedAddress =
                            (if FullAddress feature = [] then address else FullAddress feature),
                          Confidence =
                            (if Relevance feature = 0 then 0.5 else Relevance feature),
                          Components = foldl add_component [] (Context feature),
                          RawResponse = feature_json feature\<rparr>))"

definition mockGeocodeResult :: "string \<Rightarrow> GeocodeResult" where
  "mockGeocodeResult address =
     (let addressLower = ToLower address;
          latlng =
            (if Contains addressLower ''new york'' \<or> Contains addressLower ''ny''
               then (40.7128, - 74.0060)
             else if Contains addressLower ''los angeles'' \<or> Contains addressLower ''la''
               then (34.0522, - 118.2437)
             else if Contains addressLower ''chicago'' then (41.8781, - 87.6298)
             else if Contains addressLower ''seattle'' then (47.6062, - 122.3321)
             else (37.7749, - 122.4194));
          confidence =
            (if Contains address '','' \<and> length (strings_Fields address) > 3 then 0.8 else 0.7)
      in \<lparr>Latitude = fst latlng, Longitude = snd latlng, FormattedAddress = address,
          Confidence = confidence,
          Components = [(''city'', ''Mock City''), (''state'', ''CA''), (''country'', ''US'')],
          RawResponse = JObj [(''mock'', JBool True), (''original_address'', JStr address)]\<rparr>)"

definition GeocodeAddress :: "Config \<Rightarrow> mapbox_reply \<Rightarrow> string \<Rightarrow> error + GeocodeResult" where
  "GeocodeAddress cfg reply address =
     (if GeocoderAPIKey cfg = [] \<or> GeocoderAPIKey cfg = ''your-mapbox-api-key''
      then Inr (mockGeocodeResult address)
      else if Geocoder cfg = ''mapbox'' then geocodeWithMapbox reply address
      else Inl UnsupportedGeocoder)"

section \<open>Extraction-result persistence (services: VisionService.SaveResults)\<close>














section \<open>Candidate Promotion (handlers: promoteToPublicEvent)\<close>

text \<open>\<open>v, ok := fields[k].(string); ok && v != ""\<close>: \<open>Some v\<close> when the condition holds.\<close>

definition string_field :: "json_map \<Rightarrow> string \<Rightarrow> string option" where
  "string_field flds k =
     (case get_string flds k of Some v \<Rightarrow> if v \<noteq> [] then Some v else None | None \<Rightarrow> None)"

text \<open>The variable \<open>dateStr\<close>: the field \<open>date\<close>, else the field \<open>date_time\<close>, else empty.\<close>

definition date_string :: "json_map \<Rightarrow> string" where
  "date_string flds =
     (case string_field flds ''date'' of
        Some date \<Rightarrow> date
      | None \<Rightarrow> (case string_field flds ''date_time'' of Some dateTime \<Rightarrow> dateTime | None \<Rightarrow> []))"

text \<open>
  The slice \<open>formats\<close>, in its order:
  \<^verbatim>\<open>2006-01-02T15:04:05\<close>, \<^verbatim>\<open>2006-01-02 15:04:05\<close>, \<^verbatim>\<open>2006-01-02T15:04\<close>,
  \<^verbatim>\<open>2006-01-02 15:04\<close>, \<^verbatim>\<open>2006-01-02\<close>, \<^verbatim>\<open>January 2, 2006\<close>, \<^verbatim>\<open>Jan 2, 2006\<close>.
\<close>

definition formats :: "chunk list list" where
  "formats =
     [[stdLongYear, Lit ''-'', stdZeroMonth, Lit ''-'', stdZeroDay, Lit ''T'',
       stdHour, Lit '':'', stdZeroMinute, Lit '':'', stdZeroSecond],
      [stdLongYear, Lit ''-'', stdZeroMonth, Lit ''-'', stdZeroDay, Lit '' '',
       stdHour, Lit '':'', stdZeroMinute, Lit '':'', stdZeroSecond],
      [stdLongYear, Lit ''-'', stdZeroMonth, Lit ''-'', stdZeroDay, Lit ''T'',
       stdHour, Lit '':'', stdZeroMinute],
      [stdLongYear, Lit ''-'', stdZeroMonth, Lit ''-'', stdZeroDay, Lit '' '',
       stdHour, Lit '':'', stdZeroMinute],
      [stdLongYear, Lit ''-'', stdZeroMonth, Lit ''-'', stdZeroDay],
      [stdLongMonth, Lit '' '', stdDay, Lit '', '', stdLongYear],
      [stdMonth, Lit '' '', stdDay, Lit '', '', stdLongYear]]"

text \<open>The loop over the formats: the first format that parses \<open>dateStr\<close> decides, and a
  parsed time before \<open>now\<close> is moved one year on; \<open>None\<close> when the loop ends with
  \<open>parsed = false\<close>.\<close>

fun try_formats :: "chunk list list \<Rightarrow> string \<Rightarrow> gotime \<Rightarrow> gotime option" where
  "try_formats [] dateStr now = None"
| "try_formats (format # rest) dateStr now =
     (case time_Parse format dateStr of
        Some parsedTime \<Rightarrow>
          Some (if Before parsedTime now then AddDate_1year parsedTime else parsedTime)
      | None \<Rightarrow> try_formats rest dateStr now)"

text \<open>The variable \<open>startTs\<close> after the block "Parse start time"; \<open>now\<close> is the reading of
  \<open>time.Now()\<close> that decides it (each path through the block uses one).\<close>

definition resolveStartTs :: "gotime \<Rightarrow> json_map \<Rightarrow> gotime" where
  "resolveStartTs now flds =
     (let dateStr = date_string flds
      in if dateStr = [] then Add24h now
         else (case try_formats formats dateStr now of
                 Some startTs \<Rightarrow> startTs
               | None \<Rightarrow> Add24h now))"

text \<open>\<open>strings.ToLower(strings.TrimSpace(title)) + "_" + startTs.Format("2006-01-02")\<close>.\<close>

definition canonicalKey :: "zone \<Rightarrow> string \<Rightarrow> gotime \<Rightarrow> string" where
  "canonicalKey tz title startTs = ToLower (TrimSpace title) @ ''_'' @ Format_date tz startTs"

text \<open>
  The block "Create new Event record" with its optional fields: the struct \<open>event\<close>
  before it is saved, on the path \<open>via\<close> ("auto" or "manual"). The identifier is nil (0)
  until the store assigns one.
\<close>

definition new_event ::
    "string \<Rightarrow> string \<Rightarrow> gotime \<Rightarrow> json_map \<Rightarrow> EventCandidate \<Rightarrow> string \<Rightarrow> Event" where
  "new_event key title startTs flds candidate via =
     \<lparr>event_ID = 0, CanonicalKey = key, Title = title, StartTs = startTs, EndTs = None,
      VenueID = None,
      URL = string_field flds ''url'',
      Price = string_field flds ''price'',
      Description = string_field flds ''description'',
      Organizer = string_field flds ''organizer'',
      Source = ''flyer'', PublishedVia = via,
      event_QualityScore = CompositeScore candidate,
      ModerationState = ''approved''\<rparr>"

text \<open>
  \<open>UploadHandler.promoteToPublicEvent\<close> (the automatic path). \<open>tz\<close> is the local zone,
  \<open>now\<close> the clock reading, \<open>d\<close> the store. The function reads the store (the lookup by
  canonical key) and later writes it (the insert); \<open>others\<close> is what other transactions
  commit between the two, the identity when nothing runs beside this call. The result is
  the returned error (\<open>Inr ()\<close> for nil) and the store afterwards.
\<close>

definition promoteToPublicEvent ::
    "zone \<Rightarrow> gotime \<Rightarrow> (db \<Rightarrow> db) \<Rightarrow> db \<Rightarrow> EventCandidate \<Rightarrow> (error + unit) \<times> db" where
  "promoteToPublicEvent tz now others d candidate =
     (case unmarshal_map (Fields candidate) of
        None \<Rightarrow> (Inl ParseFieldsFailed, d)
      | Some flds \<Rightarrow>
          (case string_field flds ''title'' of
             None \<Rightarrow> (Inl TitleRequired, d)
           | Some title \<Rightarrow>
               let startTs = resolveStartTs now flds;
                   key = canonicalKey tz title startTs
               in (case find_event key d of
                     Some existingEvent \<Rightarrow>
                       if ModerationState existingEvent \<noteq> ''approved''
                       then (Inr (), approve_event existingEvent d)
                       else (Inr (), d)
                   | None \<Rightarrow>
                       (case create_event (others d)
                               (new_event key title startTs flds candidate ''auto'') of
                          Inl e \<Rightarrow> (Inl (CreateEventFailed e), others d)
                        | Inr d' \<Rightarrow> (Inr (), d')))))"

text \<open>The slice \<open>formats\<close> of the end time, in its order:
  \<^verbatim>\<open>2006-01-02 15:04:05\<close>, \<^verbatim>\<open>2006-01-02T15:04:05\<close>, \<^verbatim>\<open>2006-01-02 15:04\<close>,
  \<^verbatim>\<open>2006-01-02T15:04\<close>, \<^verbatim>\<open>2006-01-02\<close>.\<close>

definition end_formats :: "chunk list list" where
  "end_formats = [formats ! 1, formats ! 0, formats ! 3, formats ! 2, formats ! 4]"

fun first_parse :: "chunk list list \<Rightarrow> string \<Rightarrow> gotime option" where
  "first_parse [] endStr = None"
| "first_parse (format # rest) endStr =
     (case time_Parse format endStr of Some parsed \<Rightarrow> Some parsed | None \<Rightarrow> first_parse rest endStr)"

text \<open>The block "Handle venue" of the manual path: the store and \<open>event.VenueID\<close> after
  it. A venue row the program creates has its name and, when given, its address line.\<close>

definition handle_venue :: "json_map \<Rightarrow> db \<Rightarrow> db \<times> nat option" where
  "handle_venue flds d =
     (case string_field flds ''venue'' of
        None \<Rightarrow> (d, None)
      | Some venueName \<Rightarrow>
          (case find_venue_ilike venueName d of
             Some venue \<Rightarrow> (d, Some (venue_ID venue))
           | None \<Rightarrow>
               (case create_venue d
                       \<lparr>venue_ID = 0, Name = venueName,
                        AddressLine = string_field flds ''address'',
                        City = None, State = None, PostalCode = None, Country = ''US'',
                        Location = None, GeocodeConfidence = None, GeocodeData = None\<rparr> of
                  (d', venue) \<Rightarrow> (d', Some (venue_ID venue)))))"

text \<open>\<open>AdminHandler.promoteToPublicEvent\<close> (the manual path), with the same parameters.\<close>

definition admin_promoteToPublicEvent ::
    "zone \<Rightarrow> gotime \<Rightarrow> (db \<Rightarrow> db) \<Rightarrow> db \<Rightarrow> EventCandidate \<Rightarrow> (error + unit) \<times> db" where
  "admin_promoteToPublicEvent tz now others d candidate =
     (case unmarshal_map (Fields candidate) of
        None \<Rightarrow> (Inl ParseFieldsFailed, d)
      | Some flds \<Rightarrow>
          (case string_field flds ''title'' of
             None \<Rightarrow> (Inl TitleRequired, d)
           | Some title \<Rightarrow>
               let startTs = resolveStartTs now flds;
                   key = canonicalKey tz title startTs
               in (case find_event key d of
                     Some existingEvent \<Rightarrow>
                       if ModerationState existingEvent \<noteq> ''approved''
                       then (Inr (), approve_event existingEvent d)
                       else (Inr (), d)
                   | None \<Rightarrow>
                       (case handle_venue flds (others d) of
                          (d1, venueID) \<Rightarrow>
                            (case create_event d1
                                    ((new_event key title startTs flds candidate ''manual'')
                                       \<lparr>EndTs := (case string_field flds ''end_date'' of
                                                   None \<Rightarrow> None
                                                 | Some endStr \<Rightarrow>
                                                     first_parse end_formats endStr),
                                        VenueID := venueID\<rparr>) of
                               Inl e \<Rightarrow> (Inl (CreateEventFailed e), d1)
                             | Inr d' \<Rightarrow> (Inr (), d'))))))"



section \<open>Auto-Publish Decision Engine (handlers: processEventCandidate)\<close>

definition extractVenueAddress :: "json_map \<Rightarrow> string" where
  "extractVenueAddress eventData =
     (case List.find (\<lambda>field. string_field eventData field \<noteq> None)
             [''venue'', ''address'', ''location'', ''where''] of
        Some field \<Rightarrow> (case string_field eventData field of Some v \<Rightarrow> v | None \<Rightarrow> [])
      | None \<Rightarrow> [])"

text \<open>\<open>createOrUpdateVenue\<close>: a venue found by name and city gets the new location when
  the new confidence is greater than the stored one (or none is stored); otherwise a venue
  is created from the geocoding result, an empty country being stored as the column's
  default "US".\<close>

definition createOrUpdateVenue ::
    "json_map \<Rightarrow> GeocodeResult \<Rightarrow> db \<Rightarrow> (error + unit) \<times> db" where
  "createOrUpdateVenue eventData geocodeResult d =
     (let venueName = (case get_string eventData ''venue'' of Some name \<Rightarrow> name | None \<Rightarrow> []);
          location = (Longitude geocodeResult, Latitude geocodeResult)
      in if venueName = [] then (Inl NoVenueName, d)
         else (case find_venue_name_city venueName
                      (component (Components geocodeResult) ''city'') d of
                 None \<Rightarrow>
                   (Inr (),
                    fst (create_venue d
                      \<lparr>venue_ID = 0, Name = venueName,
                       AddressLine = Some (FormattedAddress geocodeResult),
                       City = Some (component (Components geocodeResult) ''city''),
                       State = Some (component (Components geocodeResult) ''state''),
                       PostalCode = Some (component (Components geocodeResult) ''postal_code''),
                       Country = (if component (Components geocodeResult) ''country'' = []
                                  then ''US''
                                  else component (Components geocodeResult) ''country''),
                       Location = Some location,
                       GeocodeConfidence = Some (Confidence geocodeResult),
                       GeocodeData = Some (RawResponse geocodeResult)\<rparr>))
               | Some venue \<Rightarrow>
                   if (case GeocodeConfidence venue of
                         None \<Rightarrow> True
                       | Some c \<Rightarrow> Confidence geocodeResult > c)
                   then (Inr (),
                         save_venue (venue\<lparr>Location := Some location,
                                           GeocodeConfidence := Some (Confidence geocodeResult),
                                           AddressLine := Some (FormattedAddress geocodeResult)\<rparr>) d)
                   else (Inr (), d)))"

text \<open>The values the handler uses when \<open>ModerateEventCandidate\<close> returns an error.\<close>

definition moderation_defaults :: ModerationResult where
  "moderation_defaults =
     \<lparr>QualityScore = 0.5, IsAppropriate = True, ModerationReason = None,
      ConfidenceFactors = []\<rparr>"

text \<open>
  The part of \<open>processEventCandidate\<close> between "Store composite score and publish
  decision" and the geocoding: the candidate with its decision and the store after it.
  An error of the promotion is logged and dropped.
\<close>

definition decide ::
    "Config \<Rightarrow> zone \<Rightarrow> gotime \<Rightarrow> (db \<Rightarrow> db) \<Rightarrow> ModerationResult \<Rightarrow> db \<Rightarrow> EventCandidate
       \<Rightarrow> db \<times> EventCandidate" where
  "decide cfg tz now others moderationResult d candidate =
     (let c = candidate\<lparr>CompositeScore := Some (QualityScore moderationResult)\<rparr>
      in if \<not> IsAppropriate moderationResult then
           (d, c\<lparr>PublishResult := Some ''blocked'',
                 PublicationReason := ModerationReason moderationResult\<rparr>)
         else if QualityScore moderationResult \<ge> AutoPublishThreshold cfg then
           (let c' = c\<lparr>PublishResult := Some ''published'',
                        PublicationReason := Some ''auto-published (high quality score)''\<rparr>
            in (snd (promoteToPublicEvent tz now others d c'), c'))
         else
           (d, c\<lparr>PublishResult := Some ''needs_review'',
                 PublicationReason := Some ''requires manual review (low quality score)''\<rparr>))"

text \<open>The part "GEOCODING" of \<open>processEventCandidate\<close>; its failures are logged and
  dropped.\<close>

definition geocode_candidate ::
    "Config \<Rightarrow> mapbox_reply \<Rightarrow> json_map \<Rightarrow> db \<Rightarrow> EventCandidate \<Rightarrow> db \<times> EventCandidate" where
  "geocode_candidate cfg reply eventData d candidate =
     (let venueAddress = extractVenueAddress eventData
      in if venueAddress = [] then (d, candidate)
         else (case GeocodeAddress cfg reply venueAddress of
                 Inl _ \<Rightarrow> (d, candidate)
               | Inr geocodeResult \<Rightarrow>
                   (if Confidence geocodeResult \<ge> GeoConfThreshold cfg
                    then snd (createOrUpdateVenue eventData geocodeResult d) else d,
                    candidate\<lparr>Geocode := Some geocodeResult\<rparr>)))"

text \<open>
  \<open>UploadHandler.processEventCandidate\<close>: the returned error, the store afterwards and
  the candidate as the function leaves it. \<open>outcome\<close> and \<open>reply\<close> are what the classifier
  and the geocoding provider answer.
\<close>

definition processEventCandidate ::
    "Config \<Rightarrow> zone \<Rightarrow> gotime \<Rightarrow> (db \<Rightarrow> db) \<Rightarrow> classifier_outcome \<Rightarrow> mapbox_reply \<Rightarrow> db
       \<Rightarrow> EventCandidate \<Rightarrow> (error + unit) \<times> db \<times> EventCandidate" where
  "processEventCandidate cfg tz now others outcome reply d candidate =
     (case unmarshal_map (Fields candidate) of
        None \<Rightarrow> (Inl ParseFieldsFailed, d, candidate)
      | Some eventData \<Rightarrow>
          (let moderationResult =
                 (case ModerateEventCandidate cfg outcome eventData of
                    Inl _ \<Rightarrow> moderation_defaults
                  | Inr r \<Rightarrow> r)
           in (case decide cfg tz now others moderationResult d candidate of
                 (d1, c1) \<Rightarrow>
                   (case geocode_candidate cfg reply eventData d1 c1 of
                      (d2, c2) \<Rightarrow> (Inr (), save_candidate c2 d2, c2)))))"

section \<open>Example inputs\<close>

text \<open>A store with one submission and no other row.\<close>

definition store0 :: db where
  "store0 = \<lparr>submissions = [1], flyers = [], venues = [], event_candidates = [],
             events = [], next_id = 10\<rparr>"

text \<open>The clock reading 2026-11-03 12:00:00 UTC, in a local zone that is UTC.\<close>

definition now0 :: gotime where
  "now0 = \<lparr>unix_sec = 1793707200, nsec = 0, loc = Local\<rparr>"

definition utc_zone :: zone where
  "utc_zone = (\<lambda>_. 0)"

definition jazz_fields :: "(string \<times> jsonv) list" where
  "jazz_fields = [(''title'', JStr ''Jazz Night''), (''date'', JStr ''2027-07-15T19:00:00''),
                  (''venue'', JStr ''Blue Room'')]"

text \<open>A candidate row as \<open>SaveResults\<close> leaves it (no score of the moderation, no decision).\<close>

definition jazz_candidate :: EventCandidate where
  "jazz_candidate =
     \<lparr>cand_ID = 5, FlyerID = 2, EventID = ''event_1_1'', Fields = Some (JObj jazz_fields),
      Confidences = Some (JObj []), SourceExcerpt = None, Geocode = None,
      CompositeScore = Some 0.91, PublishResult = None, PublicationReason = None\<rparr>"



text \<open>A stored event that is not approved, under the key of the candidate above, and a
  transaction of another request that commits it.\<close>

definition pending_jazz :: Event where
  "pending_jazz =
     \<lparr>event_ID = 7, CanonicalKey = ''jazz night_2027-07-15'', Title = ''Jazz Night'',
      StartTs = \<lparr>unix_sec = 1815678000, nsec = 0, loc = UTC\<rparr>, EndTs = None, VenueID = None,
      URL = None, Price = None, Description = None, Organizer = None, Source = ''flyer'',
      PublishedVia = ''auto'', event_QualityScore = None, ModerationState = ''pending''\<rparr>"

definition rival_commit :: "db \<Rightarrow> db" where
  "rival_commit d = d\<lparr>events := events d @ [pending_jazz]\<rparr>"



text \<open>A classifier answer that gives every factor the value \<open>x\<close>.\<close>

definition uniform_answer :: "real \<Rightarrow> bool \<Rightarrow> string option \<Rightarrow> moderationData" where
  "uniform_answer x ok why =
     \<lparr>md_QualityFactors =
        \<lparr>EventDetailsComplete = x, DateTimeConfidence = x, VenueConfidence = x,
         ContactInfoPresent = x, ProfessionalLookng = x, TextReadability = x\<rparr>,
      md_IsAppropriate = ok, md_ModerationReason = why\<rparr>"


section \<open>Properties\<close>

subsection \<open>Confidence Scorer\<close>






subsection \<open>Geocoding stub\<close>

lemma HasPrefix_iff: "HasPrefix s p \<longleftrightarrow> (\<exists>ys. s = p @ ys)"
  unfolding HasPrefix_def
  by (metis append_eq_conv_conj append_take_drop_id)

text \<open>\<open>Contains s sub\<close> says that \<open>sub\<close> is a contiguous part of \<open>s\<close>.\<close>

lemma Contains_iff: "Contains s sub \<longleftrightarrow> (\<exists>xs ys. s = xs @ sub @ ys)"
proof (induction s)
  case Nil
  then show ?case by simp
next
  case (Cons c cs)
  show ?case
  proof
    assume "Contains (c # cs) sub"
    then consider "HasPrefix (c # cs) sub" | "Contains cs sub" by auto
    then show "\<exists>xs ys. c # cs = xs @ sub @ ys"
    proof cases
      case 1
      then obtain ys where "c # cs = sub @ ys" by (auto simp: HasPrefix_iff)
      then have "c # cs = [] @ sub @ ys" by simp
      then show ?thesis by blast
    next
      case 2
      then obtain xs ys where "cs = xs @ sub @ ys" using Cons.IH by auto
      then have "c # cs = (c # xs) @ sub @ ys" by simp
      then show ?thesis by blast
    qed
  next
    assume "\<exists>xs ys. c # cs = xs @ sub @ ys"
    then obtain xs ys where eq: "c # cs = xs @ sub @ ys" by blast
    show "Contains (c # cs) sub"
    proof (cases xs)
      case Nil
      with eq have "HasPrefix (c # cs) sub" by (auto simp: HasPrefix_iff)
      then show ?thesis by simp
    next
      case (Cons x xs')
      with eq have "cs = xs' @ sub @ ys" by simp
      then have "Contains cs sub" using Cons.IH by blast
      then show ?thesis by simp
    qed
  qed
qed

text \<open>
  Claim C9, as stated, fails: the stub tests the lower-cased address for "new york", "ny",
  "los angeles" and "la" before "seattle", so "Pike Place Market, Seattle, WA" (which
  contains "la" in "Place") gets the Los Angeles coordinates.
\<close>

theorem GeocodeAddress_seattle_counterexample:
  "Contains ''Pike Place Market, Seattle, WA'' ''Seattle'' \<and>
   GeocoderAPIKey (default_Config ''sk-1'') = [] \<and>
   GeocodeAddress (default_Config ''sk-1'') RequestFailed ''Pike Place Market, Seattle, WA'' =
     Inr \<lparr>Latitude = 34.0522, Longitude = - 118.2437,
          FormattedAddress = ''Pike Place Market, Seattle, WA'', Confidence = 0.8,
          Components = [(''city'', ''Mock City''), (''state'', ''CA''), (''country'', ''US'')],
          RawResponse = JObj [(''mock'', JBool True),
                              (''original_address'', JStr ''Pike Place Market, Seattle, WA'')]\<rparr>"
  by code_simp

text \<open>
  Claim C9, amended. When no geocoding credential is configured (the key is empty or the
  placeholder), \<open>GeocodeAddress\<close> returns the stub result: an address whose lower-cased
  form contains "seattle" and none of "new york", "ny", "los angeles", "la", "chicago" gets
  (47.6062, -122.3321); an address that contains none of the six gets the fixed point
  (37.7749, -122.4194); the confidence is 0.8 when the address contains a comma and has
  more than three white-space-delimited tokens, and 0.7 otherwise.
\<close>

theorem GeocodeAddress_stub:
  assumes "GeocoderAPIKey cfg = [] \<or> GeocoderAPIKey cfg = ''your-mapbox-api-key''"
  shows "\<exists>r. GeocodeAddress cfg reply address = Inr r \<and>
     (Contains (ToLower address) ''seattle'' \<and>
      \<not> Contains (ToLower address) ''new york'' \<and> \<not> Contains (ToLower address) ''ny'' \<and>
      \<not> Contains (ToLower address) ''los angeles'' \<and> \<not> Contains (ToLower address) ''la'' \<and>
      \<not> Contains (ToLower address) ''chicago''
        \<longrightarrow> Latitude r = 47.6062 \<and> Longitude r = - 122.3321) \<and>
     (\<not> Contains (ToLower address) ''seattle'' \<and>
      \<not> Contains (ToLower address) ''new york'' \<and> \<not> Contains (ToLower address) ''ny'' \<and>
      \<not> Contains (ToLower address) ''los angeles'' \<and> \<not> Contains (ToLower address) ''la'' \<and>
      \<not> Contains (ToLower address) ''chicago''
        \<longrightarrow> Latitude r = 37.7749 \<and> Longitude r = - 122.4194) \<and>
     Confidence r =
       (if Contains address '','' \<and> length (strings_Fields address) > 3 then 0.8 else 0.7)"
proof -
  have "GeocodeAddress cfg reply address = Inr (mockGeocodeResult address)"
    using assms by (auto simp: GeocodeAddress_def)
  then show ?thesis
    by (simp add: mockGeocodeResult_def Let_def)
qed

theorem GeocodeAddress_stub_witness:
  "(GeocoderAPIKey (default_Config ''sk-1'') = [] \<or>
    GeocoderAPIKey (default_Config ''sk-1'') = ''your-mapbox-api-key'') \<and>
   Contains (ToLower ''123 Pine St, Seattle, WA'') ''seattle'' \<and>
   \<not> Contains (ToLower ''123 Pine St, Seattle, WA'') ''new york'' \<and>
   \<not> Contains (ToLower ''123 Pine St, Seattle, WA'') ''ny'' \<and>
   \<not> Contains (ToLower ''123 Pine St, Seattle, WA'') ''los angeles'' \<and>
   \<not> Contains (ToLower ''123 Pine St, Seattle, WA'') ''la'' \<and>
   \<not> Contains (ToLower ''123 Pine St, Seattle, WA'') ''chicago'' \<and>
   (\<exists>r. GeocodeAddress (default_Config ''sk-1'') RequestFailed ''123 Pine St, Seattle, WA'' = Inr r \<and>
        Latitude r = 47.6062 \<and> Longitude r = - 122.3321 \<and> Confidence r = 0.8)"
proof -
  have key: "GeocoderAPIKey (default_Config ''sk-1'') = [] \<or>
      GeocoderAPIKey (default_Config ''sk-1'') = ''your-mapbox-api-key''"
    by (simp add: default_Config_def)
  have names: "Contains (ToLower ''123 Pine St, Seattle, WA'') ''seattle'' \<and>
      \<not> Contains (ToLower ''123 Pine St, Seattle, WA'') ''new york'' \<and>
      \<not> Contains (ToLower ''123 Pine St, Seattle, WA'') ''ny'' \<and>
      \<not> Contains (ToLower ''123 Pine St, Seattle, WA'') ''los angeles'' \<and>
      \<not> Contains (ToLower ''123 Pine St, Seattle, WA'') ''la'' \<and>
      \<not> Contains (ToLower ''123 Pine St, Seattle, WA'') ''chicago''"
    by code_simp
  have shape: "Contains ''123 Pine St, Seattle, WA'' '','' \<and>
      length (strings_Fields ''123 Pine St, Seattle, WA'') > 3"
    by code_simp
  from GeocodeAddress_stub [OF key, of RequestFailed "''123 Pine St, Seattle, WA''"]
  obtain r where r: "GeocodeAddress (default_Config ''sk-1'') RequestFailed
        ''123 Pine St, Seattle, WA'' = Inr r"
      "Contains (ToLower ''123 Pine St, Seattle, WA'') ''seattle'' \<and>
      \<not> Contains (ToLower ''123 Pine St, Seattle, WA'') ''new york'' \<and>
      \<not> Contains (ToLower ''123 Pine St, Seattle, WA'') ''ny'' \<and>
      \<not> Contains (ToLower ''123 Pine St, Seattle, WA'') ''los angeles'' \<and>
      \<not> Contains (ToLower ''123 Pine St, Seattle, WA'') ''la'' \<and>
      \<not> Contains (ToLower ''123 Pine St, Seattle, WA'') ''chicago''
        \<longrightarrow> Latitude r = 47.6062 \<and> Longitude r = - 122.3321"
      "Confidence r =
       (if Contains ''123 Pine St, Seattle, WA'' '','' \<and>
           length (strings_Fields ''123 Pine St, Seattle, WA'') > 3 then 0.8 else 0.7)"
    by blast
  from r(2) names have "Latitude r = 47.6062 \<and> Longitude r = - 122.3321" by blast
  moreover from r(3) shape have "Confidence r = 0.8" by (simp only: simp_thms if_True)
  ultimately show ?thesis using key names r(1) by blast
qed

subsection \<open>Decision engine and moderation fallbacks\<close>

lemma events_save_candidate [simp]: "events (save_candidate c d) = events d"
  by (simp add: save_candidate_def)

lemma events_create_venue [simp]: "events (fst (create_venue d v)) = events d"
  by (simp add: create_venue_def)

lemma events_save_venue [simp]: "events (save_venue v d) = events d"
  by (simp add: save_venue_def)

lemma events_createOrUpdateVenue [simp]:
  "events (snd (createOrUpdateVenue eventData g d)) = events d"
  by (simp add: createOrUpdateVenue_def Let_def split: option.splits)

lemma events_geocode_candidate [simp]:
  "events (fst (geocode_candidate cfg reply eventData d c)) = events d"
  by (simp add: geocode_candidate_def Let_def split: sum.splits)

text \<open>The geocoding part leaves the score and the decision of the candidate as they are.\<close>

lemma geocode_candidate_keeps:
  "PublishResult (snd (geocode_candidate cfg reply eventData d c)) = PublishResult c"
  "PublicationReason (snd (geocode_candidate cfg reply eventData d c)) = PublicationReason c"
  "CompositeScore (snd (geocode_candidate cfg reply eventData d c)) = CompositeScore c"
  by (simp_all add: geocode_candidate_def Let_def split: sum.splits)

lemma save_candidate_member: "c \<in> set (event_candidates (save_candidate c d))"
  by (auto simp: save_candidate_def list_ex_iff image_iff)

lemma processEventCandidate_result:
  assumes "unmarshal_map (Fields candidate) = Some eventData"
  shows "processEventCandidate cfg tz now others outcome reply d candidate =
     (let mr = (case ModerateEventCandidate cfg outcome eventData of
                  Inl _ \<Rightarrow> moderation_defaults | Inr r \<Rightarrow> r);
          dc = decide cfg tz now others mr d candidate;
          gc = geocode_candidate cfg reply eventData (fst dc) (snd dc)
      in (Inr (), save_candidate (snd gc) (fst gc), snd gc))"
  using assms by (simp add: processEventCandidate_def Let_def split: prod.splits)

lemma triple_collapse: "p = (fst p, fst (snd p), snd (snd p))"
  by simp

text \<open>What a run of \<open>processEventCandidate\<close> on a candidate with readable fields returns,
  by the assessment \<open>mr\<close> it works with.\<close>

lemma processEventCandidate_cases:
  assumes flds: "unmarshal_map (Fields candidate) = Some eventData"
    and mr: "mr = (case ModerateEventCandidate cfg outcome eventData of
                     Inl _ \<Rightarrow> moderation_defaults | Inr r \<Rightarrow> r)"
    and run: "processEventCandidate cfg tz now others outcome reply d candidate = (res, d', c')"
  shows "res = Inr () \<and> CompositeScore c' = Some (QualityScore mr) \<and>
    (\<not> IsAppropriate mr \<longrightarrow>
       PublishResult c' = Some ''blocked'' \<and> PublicationReason c' = ModerationReason mr \<and>
       events d' = events d) \<and>
    (IsAppropriate mr \<and> QualityScore mr \<ge> AutoPublishThreshold cfg \<longrightarrow>
       PublishResult c' = Some ''published'' \<and>
       PublicationReason c' = Some ''auto-published (high quality score)'' \<and>
       events d' = events (snd (promoteToPublicEvent tz now others d
          (candidate\<lparr>CompositeScore := Some (QualityScore mr),
                      PublishResult := Some ''published'',
                      PublicationReason := Some ''auto-published (high quality score)''\<rparr>)))) \<and>
    (IsAppropriate mr \<and> QualityScore mr < AutoPublishThreshold cfg \<longrightarrow>
       PublishResult c' = Some ''needs_review'' \<and>
       PublicationReason c' = Some ''requires manual review (low quality score)'' \<and>
       events d' = events d) \<and>
    c' \<in> set (event_candidates d')"
proof -
  define dc where "dc = decide cfg tz now others mr d candidate"
  define gc where "gc = geocode_candidate cfg reply eventData (fst dc) (snd dc)"
  have pe: "processEventCandidate cfg tz now others outcome reply d candidate =
      (Inr (), save_candidate (snd gc) (fst gc), snd gc)"
    unfolding processEventCandidate_result [OF flds] Let_def dc_def gc_def mr ..
  have "(res, d', c') = (Inr (), save_candidate (snd gc) (fst gc), snd gc)"
    by (simp only: run [symmetric] pe)
  then have res: "res = Inr ()" and d': "d' = save_candidate (snd gc) (fst gc)"
    and c': "c' = snd gc" by blast+
  have ev: "events d' = events (fst dc)"
    by (simp add: d' gc_def)
  have keep: "PublishResult c' = PublishResult (snd dc)"
    "PublicationReason c' = PublicationReason (snd dc)"
    "CompositeScore c' = CompositeScore (snd dc)"
    by (simp_all add: c' gc_def geocode_candidate_keeps)
  have score: "CompositeScore (snd dc) = Some (QualityScore mr)"
    by (simp add: dc_def decide_def Let_def)
  have blocked: "PublishResult (snd dc) = Some ''blocked'' \<and>
      PublicationReason (snd dc) = ModerationReason mr \<and> events (fst dc) = events d"
    if "\<not> IsAppropriate mr"
    using that by (simp add: dc_def decide_def Let_def)
  have published: "PublishResult (snd dc) = Some ''published'' \<and>
      PublicationReason (snd dc) = Some ''auto-published (high quality score)'' \<and>
      events (fst dc) = events (snd (promoteToPublicEvent tz now others d
          (candidate\<lparr>CompositeScore := Some (QualityScore mr),
                      PublishResult := Some ''published'',
                      PublicationReason := Some ''auto-published (high quality score)''\<rparr>)))"
    if "IsAppropriate mr" "QualityScore mr \<ge> AutoPublishThreshold cfg"
    using that by (simp add: dc_def decide_def Let_def)
  have review: "PublishResult (snd dc) = Some ''needs_review'' \<and>
      PublicationReason (snd dc) = Some ''requires manual review (low quality score)'' \<and>
      events (fst dc) = events d"
    if "IsAppropriate mr" "QualityScore mr < AutoPublishThreshold cfg"
    using that by (simp add: dc_def decide_def Let_def)
  have saved: "c' \<in> set (event_candidates d')"
    unfolding d' c' by (rule save_candidate_member)
  show ?thesis
    using res ev keep score blocked published review saved by simp
qed

lemma jazz_unmarshal: "unmarshal_map (Fields jazz_candidate) = Some (map_of (rev jazz_fields))"
  by (simp add: unmarshal_map_def jazz_candidate_def)

lemma uniform_score: "calculateQualityScore (md_QualityFactors (uniform_answer x ok why)) = x"
  by (simp add: calculateQualityScore_def uniform_answer_def weight_at_def weights_def
      algebra_simps)

text \<open>
  Claim C1. For a candidate the decision engine processes (its fields are readable;
  \<open>mr\<close> is the assessment the handler works with): an assessment that is not appropriate
  gives the decision "blocked" with the assessment's reason, whatever the score, and adds
  no event; otherwise a score at or above the auto-publish threshold gives "published"
  with reason "auto-published (high quality score)", and the stored events are those that
  Candidate Promotion leaves, run within the call on the candidate so decided; otherwise
  the decision is "needs_review" with reason "requires manual review (low quality score)"
  and no event is added. The candidate so decided is the row the call saves. The
  threshold's default is 0.80.
\<close>

theorem processEventCandidate_decision:
  assumes "unmarshal_map (Fields candidate) = Some eventData"
    and "mr = (case ModerateEventCandidate cfg outcome eventData of
                 Inl _ \<Rightarrow> moderation_defaults | Inr r \<Rightarrow> r)"
    and "processEventCandidate cfg tz now others outcome reply d candidate = (res, d', c')"
  shows "res = Inr () \<and> CompositeScore c' = Some (QualityScore mr) \<and>
    (\<not> IsAppropriate mr \<longrightarrow>
       PublishResult c' = Some ''blocked'' \<and> PublicationReason c' = ModerationReason mr \<and>
       events d' = events d) \<and>
    (IsAppropriate mr \<and> QualityScore mr \<ge> AutoPublishThreshold cfg \<longrightarrow>
       PublishResult c' = Some ''published'' \<and>
       PublicationReason c' = Some ''auto-published (high quality score)'' \<and>
       events d' = events (snd (promoteToPublicEvent tz now others d
          (candidate\<lparr>CompositeScore := Some (QualityScore mr),
                      PublishResult := Some ''published'',
                      PublicationReason := Some ''auto-published (high quality score)''\<rparr>)))) \<and>
    (IsAppropriate mr \<and> QualityScore mr < AutoPublishThreshold cfg \<longrightarrow>
       PublishResult c' = Some ''needs_review'' \<and>
       PublicationReason c' = Some ''requires manual review (low quality score)'' \<and>
       events d' = events d) \<and>
    c' \<in> set (event_candidates d') \<and>
    AutoPublishThreshold (default_Config key) = 0.80"
proof -
  have "AutoPublishThreshold (default_Config key) = 0.80"
    by (simp add: default_Config_def)
  with processEventCandidate_cases [OF assms] show ?thesis by blast
qed

text \<open>With the default threshold: the scores 0.80 and 0.79 of an appropriate candidate,
  and an inappropriate candidate of score 1.\<close>

theorem processEventCandidate_decision_witness:
  "unmarshal_map (Fields jazz_candidate) = Some (map_of (rev jazz_fields)) \<and>
   PublishResult (snd (snd (processEventCandidate (default_Config ''sk-1'') utc_zone now0 id
      (Parsed (uniform_answer 0.80 True None)) RequestFailed store0 jazz_candidate)))
     = Some ''published'' \<and>
   PublishResult (snd (snd (processEventCandidate (default_Config ''sk-1'') utc_zone now0 id
      (Parsed (uniform_answer 0.79 True None)) RequestFailed store0 jazz_candidate)))
     = Some ''needs_review'' \<and>
   PublishResult (snd (snd (processEventCandidate (default_Config ''sk-1'') utc_zone now0 id
      (Parsed (uniform_answer 1 False (Some ''spam''))) RequestFailed store0 jazz_candidate)))
     = Some ''blocked'' \<and>
   PublicationReason (snd (snd (processEventCandidate (default_Config ''sk-1'') utc_zone now0 id
      (Parsed (uniform_answer 1 False (Some ''spam''))) RequestFailed store0 jazz_candidate)))
     = Some ''spam''"
proof -
  let ?cfg = "default_Config ''sk-1''"
  let ?m = "map_of (rev jazz_fields)"
  have mr: "(case ModerateEventCandidate ?cfg (Parsed (uniform_answer x ok why)) ?m of
              Inl _ \<Rightarrow> moderation_defaults | Inr r \<Rightarrow> r) =
            \<lparr>QualityScore = x, IsAppropriate = ok, ModerationReason = why,
             ConfidenceFactors = [(''event_details_complete'', x), (''datetime_confidence'', x),
               (''venue_confidence'', x), (''contact_info_present'', x),
               (''professional_looking'', x), (''text_readability'', x)]\<rparr>" for x ok why
    by (simp add: ModerateEventCandidate_def default_Config_def uniform_score)
       (simp add: uniform_answer_def)
  have thr: "AutoPublishThreshold ?cfg = 0.80" by (simp add: default_Config_def)
  have "PublishResult (snd (snd (processEventCandidate ?cfg utc_zone now0 id
      (Parsed (uniform_answer 0.80 True None)) RequestFailed store0 jazz_candidate)))
     = Some ''published''"
    using processEventCandidate_decision [where cfg = "?cfg" and tz = utc_zone and now = now0
        and outcome = "Parsed (uniform_answer 0.80 True None)" and others = id
        and reply = RequestFailed and d = store0, OF jazz_unmarshal refl triple_collapse]
    by (simp add: mr thr)
  moreover have "PublishResult (snd (snd (processEventCandidate ?cfg utc_zone now0 id
      (Parsed (uniform_answer 0.79 True None)) RequestFailed store0 jazz_candidate)))
     = Some ''needs_review''"
    using processEventCandidate_decision [where cfg = "?cfg" and tz = utc_zone and now = now0
        and outcome = "Parsed (uniform_answer 0.79 True None)" and others = id
        and reply = RequestFailed and d = store0, OF jazz_unmarshal refl triple_collapse]
    by (simp add: mr thr)
  moreover have "PublishResult (snd (snd (processEventCandidate ?cfg utc_zone now0 id
      (Parsed (uniform_answer 1 False (Some ''spam''))) RequestFailed store0 jazz_candidate)))
     = Some ''blocked'' \<and>
    PublicationReason (snd (snd (processEventCandidate ?cfg utc_zone now0 id
      (Parsed (uniform_answer 1 False (Some ''spam''))) RequestFailed store0 jazz_candidate)))
     = Some ''spam''"
    using processEventCandidate_decision [where cfg = "?cfg" and tz = utc_zone and now = now0
        and outcome = "Parsed (uniform_answer 1 False (Some ''spam''))" and others = id
        and reply = RequestFailed and d = store0, OF jazz_unmarshal refl triple_collapse]
    by (simp add: mr)
  ultimately show ?thesis using jazz_unmarshal by blast
qed

text \<open>
  Claim C4, as stated, fails for a failed or timed-out classifier call: there
  \<open>ModerateEventCandidate\<close> returns an error, and the handler goes on with the score 0.5
  rather than with the heuristic (which gives this candidate 0.95), so the candidate is
  held for review where the heuristic would have published it.
\<close>

theorem moderation_call_failure_counterexample:
  "ModerateEventCandidate (default_Config ''sk-1'') CallFailed (map_of (rev jazz_fields)) =
     Inl ModerationCallFailed \<and>
   QualityScore (mockModerationResult (map_of (rev jazz_fields))) = 0.95 \<and>
   unmarshal_map (Fields jazz_candidate) = Some (map_of (rev jazz_fields)) \<and>
   CompositeScore (snd (snd (processEventCandidate (default_Config ''sk-1'') utc_zone now0 id
       CallFailed RequestFailed store0 jazz_candidate))) = Some 0.5 \<and>
   PublishResult (snd (snd (processEventCandidate (default_Config ''sk-1'') utc_zone now0 id
       CallFailed RequestFailed store0 jazz_candidate))) = Some ''needs_review''"
proof -
  have "ModerateEventCandidate (default_Config ''sk-1'') CallFailed (map_of (rev jazz_fields)) =
     Inl ModerationCallFailed"
    by code_simp
  moreover have "QualityScore (mockModerationResult (map_of (rev jazz_fields))) = 0.95"
    by code_simp
  moreover have "CompositeScore (snd (snd (processEventCandidate (default_Config ''sk-1'')
       utc_zone now0 id CallFailed RequestFailed store0 jazz_candidate))) = Some 0.5"
    by code_simp
  moreover have "PublishResult (snd (snd (processEventCandidate (default_Config ''sk-1'')
       utc_zone now0 id CallFailed RequestFailed store0 jazz_candidate))) = Some ''needs_review''"
    by code_simp
  ultimately show ?thesis using jazz_unmarshal by blast
qed

lemma mockModerationResult_score:
  "QualityScore (mockModerationResult eventData) =
      min 1 (0.75 + (if field_present eventData ''title'' then 0.10 else 0)
                  + (if field_present eventData ''venue'' then 0.05 else 0)
                  + (if field_present eventData ''date'' then 0.05 else 0))"
  by (simp add: mockModerationResult_def Let_def)

text \<open>
  Claim C4, amended. When the classifier's output is unparsable, or no classifier
  credential is configured, the Moderation Stage's result is the local heuristic
  assessment: 0.75, plus 0.10 if the field \<open>title\<close> is a non-blank string, plus 0.05 each
  if the fields \<open>venue\<close> and \<open>date\<close> are, capped at 1.0, appropriate, with no reason. When
  the classifier call fails, times out or returns no choice, \<open>ModerateEventCandidate\<close>
  returns an error and \<open>processEventCandidate\<close> works with the score 0.5 of an appropriate
  candidate: the composite score is 0.5 and the decision is "published" or "needs_review"
  by the threshold alone.
\<close>

theorem ModerateEventCandidate_fallbacks:
  "(OpenAIAPIKey cfg = [] \<or> outcome = Unparsable \<longrightarrow>
      ModerateEventCandidate cfg outcome eventData = Inr (mockModerationResult eventData)) \<and>
   QualityScore (mockModerationResult eventData) =
      min 1 (0.75 + (if field_present eventData ''title'' then 0.10 else 0)
                  + (if field_present eventData ''venue'' then 0.05 else 0)
                  + (if field_present eventData ''date'' then 0.05 else 0)) \<and>
   IsAppropriate (mockModerationResult eventData) \<and>
   ModerationReason (mockModerationResult eventData) = None \<and>
   (OpenAIAPIKey cfg \<noteq> [] \<and> (outcome = CallFailed \<or> outcome = NoChoices) \<and>
    unmarshal_map (Fields candidate) = Some eventData \<longrightarrow>
      (\<exists>e. ModerateEventCandidate cfg outcome eventData = Inl e) \<and>
      CompositeScore (snd (snd (processEventCandidate cfg tz now others outcome reply d candidate)))
        = Some 0.5 \<and>
      PublishResult (snd (snd (processEventCandidate cfg tz now others outcome reply d candidate)))
        = Some (if 0.5 \<ge> AutoPublishThreshold cfg then ''published'' else ''needs_review''))"
proof (intro conjI impI)
  assume "OpenAIAPIKey cfg = [] \<or> outcome = Unparsable"
  then show "ModerateEventCandidate cfg outcome eventData = Inr (mockModerationResult eventData)"
    by (auto simp: ModerateEventCandidate_def)
next
  show "QualityScore (mockModerationResult eventData) =
      min 1 (0.75 + (if field_present eventData ''title'' then 0.10 else 0)
                  + (if field_present eventData ''venue'' then 0.05 else 0)
                  + (if field_present eventData ''date'' then 0.05 else 0))"
    by (rule mockModerationResult_score)
next
  show "IsAppropriate (mockModerationResult eventData)"
    by (simp add: mockModerationResult_def Let_def)
next
  show "ModerationReason (mockModerationResult eventData) = None"
    by (simp add: mockModerationResult_def Let_def)
next
  assume a: "OpenAIAPIKey cfg \<noteq> [] \<and> (outcome = CallFailed \<or> outcome = NoChoices) \<and>
    unmarshal_map (Fields candidate) = Some eventData"
  then show "\<exists>e. ModerateEventCandidate cfg outcome eventData = Inl e"
    by (auto simp: ModerateEventCandidate_def)
  from a have mr: "(case ModerateEventCandidate cfg outcome eventData of
                     Inl _ \<Rightarrow> moderation_defaults | Inr r \<Rightarrow> r) = moderation_defaults"
    by (auto simp: ModerateEventCandidate_def)
  from a have flds: "unmarshal_map (Fields candidate) = Some eventData" by simp
  note dec = processEventCandidate_cases [OF flds mr [symmetric] triple_collapse,
      of tz now others reply d]
  from dec show "CompositeScore (snd (snd (processEventCandidate cfg tz now others outcome
        reply d candidate))) = Some 0.5"
    by (simp add: moderation_defaults_def)
  from dec show "PublishResult (snd (snd (processEventCandidate cfg tz now others outcome
        reply d candidate)))
        = Some (if 0.5 \<ge> AutoPublishThreshold cfg then ''published'' else ''needs_review'')"
    by (simp add: moderation_defaults_def)
qed

theorem ModerateEventCandidate_fallbacks_witness:
  "ModerateEventCandidate (default_Config ''sk-1'') Unparsable (map_of (rev jazz_fields)) =
     Inr (mockModerationResult (map_of (rev jazz_fields))) \<and>
   QualityScore (mockModerationResult (map_of (rev jazz_fields))) = 0.95 \<and>
   OpenAIAPIKey (default_Config ''sk-1'') \<noteq> [] \<and>
   unmarshal_map (Fields jazz_candidate) = Some (map_of (rev jazz_fields)) \<and>
   CompositeScore (snd (snd (processEventCandidate (default_Config ''sk-1'') utc_zone now0 id
       CallFailed RequestFailed store0 jazz_candidate))) = Some 0.5"
proof -
  have key: "OpenAIAPIKey (default_Config ''sk-1'') \<noteq> []"
    by (simp add: default_Config_def)
  have present: "field_present (map_of (rev jazz_fields)) ''title'' \<and>
      field_present (map_of (rev jazz_fields)) ''venue'' \<and>
      field_present (map_of (rev jazz_fields)) ''date''"
    by code_simp
  note t1 = ModerateEventCandidate_fallbacks [where cfg = "default_Config ''sk-1''"
      and outcome = Unparsable and eventData = "map_of (rev jazz_fields)"]
  note t2 = ModerateEventCandidate_fallbacks [where cfg = "default_Config ''sk-1''"
      and outcome = CallFailed and eventData = "map_of (rev jazz_fields)"
      and candidate = jazz_candidate and tz = utc_zone and now = now0 and others = id
      and reply = RequestFailed and d = store0]
  have "ModerateEventCandidate (default_Config ''sk-1'') Unparsable (map_of (rev jazz_fields)) =
     Inr (mockModerationResult (map_of (rev jazz_fields)))"
    using t1 by blast
  moreover have "QualityScore (mockModerationResult (map_of (rev jazz_fields))) = 0.95"
    using t1 present by simp
  moreover have "CompositeScore (snd (snd (processEventCandidate (default_Config ''sk-1'')
       utc_zone now0 id CallFailed RequestFailed store0 jazz_candidate))) = Some 0.5"
    using t2 key jazz_unmarshal by blast
  ultimately show ?thesis using key jazz_unmarshal by blast
qed

subsection \<open>Persistence of extraction results\<close>







subsection \<open>Candidate Promotion: lookup, upgrade, insert\<close>



lemma keys_approve_event [simp]:
  "map CanonicalKey (events (approve_event e d)) = map CanonicalKey (events d)"
  by (simp add: approve_event_def comp_def)




lemma events_handle_venue: "events (fst (handle_venue flds d)) = events d"
  by (simp add: handle_venue_def create_venue_def split: option.splits)




lemma promote_missing:
  assumes "unmarshal_map (Fields c) = Some flds" "string_field flds ''title'' = Some title"
    "find_event (canonicalKey tz title (resolveStartTs now flds)) d = None"
  shows "promoteToPublicEvent tz now others d c =
    (case create_event (others d)
            (new_event (canonicalKey tz title (resolveStartTs now flds)) title
               (resolveStartTs now flds) flds c ''auto'') of
       Inl err \<Rightarrow> (Inl (CreateEventFailed err), others d)
     | Inr d' \<Rightarrow> (Inr (), d'))"
  using assms by (simp add: promoteToPublicEvent_def Let_def)

lemma admin_promote_missing:
  assumes "unmarshal_map (Fields c) = Some flds" "string_field flds ''title'' = Some title"
    "find_event (canonicalKey tz title (resolveStartTs now flds)) d = None"
  shows "admin_promoteToPublicEvent tz now others d c =
    (case create_event (fst (handle_venue flds (others d)))
            ((new_event (canonicalKey tz title (resolveStartTs now flds)) title
               (resolveStartTs now flds) flds c ''manual'')
               \<lparr>EndTs := (case string_field flds ''end_date'' of
                            None \<Rightarrow> None
                          | Some endStr \<Rightarrow> first_parse end_formats endStr),
                VenueID := snd (handle_venue flds (others d))\<rparr>) of
       Inl err \<Rightarrow> (Inl (CreateEventFailed err), fst (handle_venue flds (others d)))
     | Inr d' \<Rightarrow> (Inr (), d'))"
  using assms by (simp add: admin_promoteToPublicEvent_def Let_def case_prod_beta)


lemma create_event_duplicate:
  assumes "list_ex (\<lambda>e. CanonicalKey e = CanonicalKey ev) (events d)"
  shows "create_event d ev = Inl UniqueViolation"
  using assms by (simp add: create_event_def)







lemma CanonicalKey_new_event [simp]:
  "CanonicalKey (new_event key title startTs flds c via) = key"
  "ModerationState (new_event key title startTs flds c via) = ''approved''"
  "PublishedVia (new_event key title startTs flds c via) = via"
  "VenueID (new_event key title startTs flds c via) = None"
  by (simp_all add: new_event_def)






lemma jazz_title: "string_field (map_of (rev jazz_fields)) ''title'' = Some ''Jazz Night''"
  by code_simp

lemma jazz_key:
  "canonicalKey utc_zone ''Jazz Night'' (resolveStartTs now0 (map_of (rev jazz_fields))) =
     ''jazz night_2027-07-15''"
  by code_simp


subsection \<open>Candidate Promotion: a conflicting insert, and the venue\<close>

text \<open>
  Claim C3, as stated, fails: when another transaction commits an event with the same key
  between the lookup and the insert, the insert's unique-constraint violation is returned
  as the error of the promotion, on both paths, and the stored event is not upgraded (it
  stays "pending").
\<close>

theorem promotion_conflict_counterexample:
  "find_event ''jazz night_2027-07-15'' store0 = None \<and>
   find_event ''jazz night_2027-07-15'' (rival_commit store0) = Some pending_jazz \<and>
   promoteToPublicEvent utc_zone now0 rival_commit store0 jazz_candidate =
     (Inl (CreateEventFailed UniqueViolation), rival_commit store0) \<and>
   admin_promoteToPublicEvent utc_zone now0 rival_commit store0 jazz_candidate =
     (Inl (CreateEventFailed UniqueViolation), fst (handle_venue (map_of (rev jazz_fields)) (rival_commit store0))) \<and>
   map ModerationState (events (snd (promoteToPublicEvent utc_zone now0 rival_commit store0
      jazz_candidate))) = [''pending''] \<and>
   map ModerationState (events (snd (admin_promoteToPublicEvent utc_zone now0 rival_commit store0
      jazz_candidate))) = [''pending'']"
  by code_simp

text \<open>
  Claim C3, amended. When the lookup finds no event and the insert then fails with a
  unique-constraint violation on the canonical key (another transaction has stored the
  key in between), Candidate Promotion returns the violation to its caller as the error
  "failed to create event" and changes no event: the events are as the other transactions
  left them, none is upgraded.
\<close>

theorem promotion_insert_conflict:
  assumes flds: "unmarshal_map (Fields c) = Some flds"
    and title: "string_field flds ''title'' = Some title"
    and key: "key = canonicalKey tz title (resolveStartTs now flds)"
    and miss: "find_event key d = None"
    and there: "list_ex (\<lambda>e. CanonicalKey e = key) (events (others d))"
  shows "promoteToPublicEvent tz now others d c =
      (Inl (CreateEventFailed UniqueViolation), others d) \<and>
    fst (admin_promoteToPublicEvent tz now others d c) = Inl (CreateEventFailed UniqueViolation) \<and>
    events (snd (admin_promoteToPublicEvent tz now others d c)) = events (others d)"
proof -
  have n: "find_event (canonicalKey tz title (resolveStartTs now flds)) d = None"
    using miss by (simp add: key)
  have "create_event (others d)
          (new_event (canonicalKey tz title (resolveStartTs now flds)) title
             (resolveStartTs now flds) flds c ''auto'') = Inl UniqueViolation"
    by (rule create_event_duplicate) (use there in \<open>simp add: key\<close>)
  then have a: "promoteToPublicEvent tz now others d c =
      (Inl (CreateEventFailed UniqueViolation), others d)"
    using promote_missing [OF flds title n, of others] by simp
  let ?d1 = "fst (handle_venue flds (others d))"
  have "create_event ?d1
          ((new_event (canonicalKey tz title (resolveStartTs now flds)) title
               (resolveStartTs now flds) flds c ''manual'')
               \<lparr>EndTs := (case string_field flds ''end_date'' of
                            None \<Rightarrow> None
                          | Some endStr \<Rightarrow> first_parse end_formats endStr),
                VenueID := snd (handle_venue flds (others d))\<rparr>) = Inl UniqueViolation"
    by (rule create_event_duplicate) (use there in \<open>simp add: key events_handle_venue\<close>)
  then have "admin_promoteToPublicEvent tz now others d c =
      (Inl (CreateEventFailed UniqueViolation), ?d1)"
    using admin_promote_missing [OF flds title n, of others] by simp
  then show ?thesis using a by (simp add: events_handle_venue)
qed

theorem promotion_insert_conflict_witness:
  "unmarshal_map (Fields jazz_candidate) = Some (map_of (rev jazz_fields)) \<and>
   string_field (map_of (rev jazz_fields)) ''title'' = Some ''Jazz Night'' \<and>
   find_event ''jazz night_2027-07-15'' store0 = None \<and>
   list_ex (\<lambda>e. CanonicalKey e = ''jazz night_2027-07-15'') (events (rival_commit store0)) \<and>
   promoteToPublicEvent utc_zone now0 rival_commit store0 jazz_candidate =
     (Inl (CreateEventFailed UniqueViolation), rival_commit store0)"
proof -
  have none: "find_event ''jazz night_2027-07-15'' store0 = None" by code_simp
  have there: "list_ex (\<lambda>e. CanonicalKey e = ''jazz night_2027-07-15'')
      (events (rival_commit store0))" by code_simp
  from promotion_insert_conflict [where others = rival_commit and d = store0,
      OF jazz_unmarshal jazz_title jazz_key [symmetric] none there]
  show ?thesis using jazz_unmarshal jazz_title none there by blast
qed

lemma venues_approve_event [simp]: "venues (approve_event e d) = venues d"
  by (simp add: approve_event_def)

lemma venues_create_event: "create_event d ev = Inr d' \<Longrightarrow> venues d' = venues d"
  by (auto simp: create_event_def split: if_splits)

text \<open>
  Claim C8 on the automatic path: \<open>UploadHandler.promoteToPublicEvent\<close> never reads or
  writes the venues, and the event it inserts for a candidate with the venue "Blue Room"
  carries no venue reference; \<open>AdminHandler.promoteToPublicEvent\<close>, on the same input,
  creates the venue and stores its reference in the event.
\<close>

theorem auto_promotion_leaves_venue_out:
  "venues (snd (promoteToPublicEvent tz now id d c)) = venues d \<and>
   string_field (map_of (rev jazz_fields)) ''venue'' = Some ''Blue Room'' \<and>
   fst (promoteToPublicEvent utc_zone now0 id store0 jazz_candidate) = Inr () \<and>
   map VenueID (events (snd (promoteToPublicEvent utc_zone now0 id store0 jazz_candidate)))
     = [None] \<and>
   venues (snd (promoteToPublicEvent utc_zone now0 id store0 jazz_candidate)) = [] \<and>
   fst (admin_promoteToPublicEvent utc_zone now0 id store0 jazz_candidate) = Inr () \<and>
   map VenueID (events (snd (admin_promoteToPublicEvent utc_zone now0 id store0 jazz_candidate)))
     = [Some 10] \<and>
   map (\<lambda>v. (venue_ID v, Name v)) (venues (snd (admin_promoteToPublicEvent utc_zone now0 id
      store0 jazz_candidate))) = [(10, ''Blue Room'')]"
proof -
  have "venues (snd (promoteToPublicEvent tz now id d c)) = venues d"
    by (auto simp: promoteToPublicEvent_def Let_def venues_create_event
        split: option.splits sum.splits)
  moreover have "string_field (map_of (rev jazz_fields)) ''venue'' = Some ''Blue Room'' \<and>
   fst (promoteToPublicEvent utc_zone now0 id store0 jazz_candidate) = Inr () \<and>
   map VenueID (events (snd (promoteToPublicEvent utc_zone now0 id store0 jazz_candidate)))
     = [None] \<and>
   venues (snd (promoteToPublicEvent utc_zone now0 id store0 jazz_candidate)) = [] \<and>
   fst (admin_promoteToPublicEvent utc_zone now0 id store0 jazz_candidate) = Inr () \<and>
   map VenueID (events (snd (admin_promoteToPublicEvent utc_zone now0 id store0 jazz_candidate)))
     = [Some 10] \<and>
   map (\<lambda>v. (venue_ID v, Name v)) (venues (snd (admin_promoteToPublicEvent utc_zone now0 id
      store0 jazz_candidate))) = [(10, ''Blue Room'')]"
    by code_simp
  ultimately show ?thesis by blast
qed

subsection \<open>Canonical key\<close>

lemma isSpace_toLower_char [simp]: "isSpace (toLower_char c) = isSpace c"
  by (simp add: toLower_char_def isSpace_def split: option.splits)











subsection \<open>Start-time resolution\<close>






end
